theory Spec2Isabelle
  imports Main "HOL-Library.Word"
begin

section \<open>Engine types the section is built from\<close>

text \<open>
  The header \<^verbatim>\<open>RuntimeMeshSection.h\<close> uses the engine's vector, box, array and
  archive types. A coordinate is a \<^verbatim>\<open>float\<close>: a number or NaN. The numbers are any
  linearly ordered type with a zero (the two zeros of the hardware, which every comparison
  takes for equal, are one number here; the infinities are numbers like any other).
  The comparisons \<^verbatim>\<open>==\<close>, \<^verbatim>\<open><=\<close> and \<^verbatim>\<open>>=\<close> are false as soon as one side is NaN.
\<close>

type_synonym int32 = "32 word"

datatype 'a float = Num 'a | NaN

fun float_eq :: "'a float \<Rightarrow> 'a float \<Rightarrow> bool" where
  "float_eq (Num x) (Num y) = (x = y)"
| "float_eq _ _ = False"

fun float_le :: "'a::linorder float \<Rightarrow> 'a float \<Rightarrow> bool" where
  "float_le (Num x) (Num y) = (x \<le> y)"
| "float_le _ _ = False"

fun float_ge :: "'a::linorder float \<Rightarrow> 'a float \<Rightarrow> bool" where
  "float_ge (Num x) (Num y) = (x \<ge> y)"
| "float_ge _ _ = False"

text \<open>
  \<^verbatim>\<open>FMath::Min(A, B)\<close> is \<^verbatim>\<open>(A <= B) ? A : B\<close> and \<^verbatim>\<open>FMath::Max(A, B)\<close> is
  \<^verbatim>\<open>(A >= B) ? A : B\<close>.
\<close>

definition FMath_Min :: "'a::linorder float \<Rightarrow> 'a float \<Rightarrow> 'a float" where
  "FMath_Min A B = (if float_le A B then A else B)"

definition FMath_Max :: "'a::linorder float \<Rightarrow> 'a float \<Rightarrow> 'a float" where
  "FMath_Max A B = (if float_ge A B then A else B)"

record 'a FVector =
  X :: 'a
  Y :: 'a
  Z :: 'a

definition ZeroVector :: "'a::zero float FVector" where
  "ZeroVector = \<lparr>X = Num 0, Y = Num 0, Z = Num 0\<rparr>"

text \<open>\<^verbatim>\<open>FVector::operator==\<close> compares the three components.\<close>

definition FVector_eq :: "'a float FVector \<Rightarrow> 'a float FVector \<Rightarrow> bool" where
  "FVector_eq A B = (float_eq (X A) (X B) \<and> float_eq (Y A) (Y B) \<and> float_eq (Z A) (Z B))"

text \<open>
  Modelled from the spec: the engine's box type \<^verbatim>\<open>FBox\<close> is not part of the header.
  The spec has a box as its two extents, the empty (degenerate) box for no position, and
  equality compared field-wise on the box extents. The validity flag and the way
  \<^verbatim>\<open>+=\<close> treats it follow the engine: \<^verbatim>\<open>FBox(0)\<close> is the empty box (both extents
  zero, not valid); \<^verbatim>\<open>+=\<close> with a point makes a box that is not valid the point's box
  and stretches a valid box to hold the point; \<^verbatim>\<open>==\<close> reads the two extents and not
  the flag.
\<close>

record 'a FBox =
  Min_b :: "'a FVector"
  Max_b :: "'a FVector"
  IsValid :: bool

definition FBox_Init :: "'a::zero float FBox" where
  "FBox_Init = \<lparr>Min_b = ZeroVector, Max_b = ZeroVector, IsValid = False\<rparr>"

definition FBox_add :: "'a::linorder float FBox \<Rightarrow> 'a float FVector \<Rightarrow> 'a float FBox" where
  "FBox_add Box Other =
     (if IsValid Box then
        \<lparr>Min_b = \<lparr>X = FMath_Min (X (Min_b Box)) (X Other),
                  Y = FMath_Min (Y (Min_b Box)) (Y Other),
                  Z = FMath_Min (Z (Min_b Box)) (Z Other)\<rparr>,
         Max_b = \<lparr>X = FMath_Max (X (Max_b Box)) (X Other),
                  Y = FMath_Max (Y (Max_b Box)) (Y Other),
                  Z = FMath_Max (Z (Max_b Box)) (Z Other)\<rparr>,
         IsValid = True\<rparr>
      else \<lparr>Min_b = Other, Max_b = Other, IsValid = True\<rparr>)"

definition FBox_eq :: "'a float FBox \<Rightarrow> 'a float FBox \<Rightarrow> bool" where
  "FBox_eq A B = (FVector_eq (Min_b A) (Min_b B) \<and> FVector_eq (Max_b A) (Max_b B))"

text \<open>
  \<^verbatim>\<open>TArray::SetNumUninitialized\<close>: the array gets the given length; slots it gains hold
  unspecified data, here the argument \<open>u\<close>.
\<close>

definition SetNumUninitialized :: "'e \<Rightarrow> nat \<Rightarrow> 'e list \<Rightarrow> 'e list" where
  "SetNumUninitialized u n xs = take n xs @ replicate (n - length xs) u"

text \<open>
  Modelled from the spec: \<^verbatim>\<open>EUpdateFrequency\<close> is declared outside the header. The spec
  names its three values (Infrequent, Frequent, Average) without their numbers and has the
  value written as a 32-bit integer. A section stores the enumeration's underlying byte;
  the cast to \<^verbatim>\<open>int32\<close> widens it and the cast back narrows.
\<close>

type_synonym EUpdateFrequency = "8 word"

definition int32_of_EUpdateFrequency :: "EUpdateFrequency \<Rightarrow> int32" where
  "int32_of_EUpdateFrequency f = ucast f"

definition EUpdateFrequency_of_int32 :: "int32 \<Rightarrow> EUpdateFrequency" where
  "EUpdateFrequency_of_int32 i = ucast i"

section \<open>The section interface\<close>

record 'a FRuntimeMeshSectionInterface =
  bNeedsPositionOnlyBuffer :: bool
  PositionVertexBuffer :: "'a float FVector list"
  IndexBuffer :: "int32 list"
  TessellationIndexBuffer :: "int32 list"
  LocalBoundingBox :: "'a float FBox"
  CollisionEnabled :: bool
  bIsVisible :: bool
  bCastsShadow :: bool
  bShouldUseAdjacencyIndexBuffer :: bool
  UpdateFrequency :: EUpdateFrequency
  bIsInternalSectionType :: bool

definition IsDualBufferSection :: "('a, 'm) FRuntimeMeshSectionInterface_scheme \<Rightarrow> bool" where
  "IsDualBufferSection sec = bNeedsPositionOnlyBuffer sec"

subsection \<open>The two loops of the buffer updates\<close>

text \<open>
  \<^verbatim>\<open>for (VertexIdx = 0; VertexIdx < Buf.Num(); VertexIdx++) NewBoundingBox += Buf[VertexIdx]\<close>,
  with \<open>pos\<close> reading the position of an element (the element itself in the position
  buffer, its \<^verbatim>\<open>Position\<close> member in a vertex buffer).
\<close>

function bounds_loop :: "('v \<Rightarrow> 'a::linorder float FVector) \<Rightarrow> 'v list \<Rightarrow> nat \<Rightarrow> 'a float FBox \<Rightarrow> 'a float FBox" where
  "bounds_loop pos Buf VertexIdx NewBoundingBox =
     (if VertexIdx < length Buf
      then bounds_loop pos Buf (VertexIdx + 1) (FBox_add NewBoundingBox (pos (Buf ! VertexIdx)))
      else NewBoundingBox)"
  by pat_completeness auto
termination
  by (relation "measure (\<lambda>(pos, Buf, VertexIdx, NewBoundingBox). length Buf - VertexIdx)") auto

text \<open>
  The copying loop: each round adds the source element's position to the box and stores
  the element in the destination at the same index. The destination has been resized to
  \<open>NumVertices\<close> before, so the store is in range.
\<close>

function copy_loop ::
  "('v \<Rightarrow> 'a::linorder float FVector) \<Rightarrow> 'v list \<Rightarrow> nat \<Rightarrow> nat \<Rightarrow> 'a float FBox \<Rightarrow> 'v list \<Rightarrow> 'a float FBox \<times> 'v list" where
  "copy_loop pos Src NumVertices VertexIdx NewBoundingBox Dst =
     (if VertexIdx < NumVertices
      then copy_loop pos Src NumVertices (VertexIdx + 1)
             (FBox_add NewBoundingBox (pos (Src ! VertexIdx)))
             (Dst[VertexIdx := Src ! VertexIdx])
      else (NewBoundingBox, Dst))"
  by pat_completeness auto
termination
  by (relation "measure (\<lambda>(pos, Src, NumVertices, VertexIdx, NewBoundingBox, Dst). NumVertices - VertexIdx)") auto

subsection \<open>UpdateVertexPositionBuffer, UpdateIndexBuffer, UpdateTessellationIndexBuffer\<close>

text \<open>
  The result is the returned flag, the section afterwards, and the caller's array
  afterwards (empty once it has been moved from).
\<close>

definition UpdateVertexPositionBuffer ::
  "'a float FVector \<Rightarrow> 'a float FVector list \<Rightarrow> 'a float FBox option \<Rightarrow> bool \<Rightarrow>
   ('a::{linorder,zero}, 'm) FRuntimeMeshSectionInterface_scheme \<Rightarrow>
   bool \<times> ('a, 'm) FRuntimeMeshSectionInterface_scheme \<times> 'a float FVector list" where
  "UpdateVertexPositionBuffer u Positions BoundingBox bShouldMoveArray sec =
     (let (sec1, Positions1, NewBoundingBox) =
        (if bShouldMoveArray then
           (let secM = sec\<lparr>PositionVertexBuffer := Positions\<rparr> in
            case BoundingBox of
              None \<Rightarrow> (secM, [], bounds_loop (\<lambda>p. p) (PositionVertexBuffer secM) 0 FBox_Init)
            | Some B \<Rightarrow> (secM, [], B))
         else
           (case BoundingBox of
              None \<Rightarrow>
                (let NumVertices = length Positions;
                     Buf = SetNumUninitialized u NumVertices (PositionVertexBuffer sec);
                     (Box, Buf') = copy_loop (\<lambda>p. p) Positions NumVertices 0 FBox_Init Buf
                 in (sec\<lparr>PositionVertexBuffer := Buf'\<rparr>, Positions, Box))
            | Some B \<Rightarrow> (sec\<lparr>PositionVertexBuffer := Positions\<rparr>, Positions, B)))
      in if \<not> FBox_eq (LocalBoundingBox sec1) NewBoundingBox
         then (True, sec1\<lparr>LocalBoundingBox := NewBoundingBox\<rparr>, Positions1)
         else (False, sec1, Positions1))"

definition UpdateIndexBuffer ::
  "int32 list \<Rightarrow> bool \<Rightarrow> ('a, 'm) FRuntimeMeshSectionInterface_scheme \<Rightarrow>
   ('a, 'm) FRuntimeMeshSectionInterface_scheme \<times> int32 list" where
  "UpdateIndexBuffer Triangles bShouldMoveArray sec =
     (if bShouldMoveArray then (sec\<lparr>IndexBuffer := Triangles\<rparr>, [])
      else (sec\<lparr>IndexBuffer := Triangles\<rparr>, Triangles))"

definition UpdateTessellationIndexBuffer ::
  "int32 list \<Rightarrow> bool \<Rightarrow> ('a, 'm) FRuntimeMeshSectionInterface_scheme \<Rightarrow>
   ('a, 'm) FRuntimeMeshSectionInterface_scheme \<times> int32 list" where
  "UpdateTessellationIndexBuffer Triangles bShouldMoveArray sec =
     (if bShouldMoveArray then (sec\<lparr>TessellationIndexBuffer := Triangles\<rparr>, [])
      else (sec\<lparr>TessellationIndexBuffer := Triangles\<rparr>, Triangles))"

subsection \<open>Serialize\<close>

text \<open>
  Modelled from the spec: the archive class \<^verbatim>\<open>FArchive\<close> is the engine's and not part
  of the header. The spec has a version-tagged stream of fields in a fixed order. The
  archive is the list of the typed fields written so far (saving appends, loading takes
  from the front), together with the custom version recorded for the mesh format, the
  direction and the error state; \<^verbatim>\<open><<\<close> writes or reads one field and always returns.
  Loading a field the stream does not hold at that place leaves the variable as it was
  and puts the archive in its error state, as the engine's readers do at the end of
  their data.
\<close>

datatype 'a ArValue =
  ArVectors "'a float FVector list"
| ArInts "int32 list"
| ArBox "'a float FBox"
| ArBool bool
| ArInt32 int32

record 'a FArchive =
  ArIsLoading :: bool
  ArIsError :: bool
  CustomVer :: int
  ArData :: "'a ArValue list"

definition ser_Vectors :: "'a FArchive \<Rightarrow> 'a float FVector list \<Rightarrow> 'a FArchive \<times> 'a float FVector list" where
  "ser_Vectors Ar v =
     (if ArIsLoading Ar then
        (case ArData Ar of
           ArVectors w # rest \<Rightarrow> (Ar\<lparr>ArData := rest\<rparr>, w)
         | _ \<Rightarrow> (Ar\<lparr>ArIsError := True\<rparr>, v))
      else (Ar\<lparr>ArData := ArData Ar @ [ArVectors v]\<rparr>, v))"

definition ser_Ints :: "'a FArchive \<Rightarrow> int32 list \<Rightarrow> 'a FArchive \<times> int32 list" where
  "ser_Ints Ar v =
     (if ArIsLoading Ar then
        (case ArData Ar of
           ArInts w # rest \<Rightarrow> (Ar\<lparr>ArData := rest\<rparr>, w)
         | _ \<Rightarrow> (Ar\<lparr>ArIsError := True\<rparr>, v))
      else (Ar\<lparr>ArData := ArData Ar @ [ArInts v]\<rparr>, v))"

definition ser_Box :: "'a FArchive \<Rightarrow> 'a float FBox \<Rightarrow> 'a FArchive \<times> 'a float FBox" where
  "ser_Box Ar v =
     (if ArIsLoading Ar then
        (case ArData Ar of
           ArBox w # rest \<Rightarrow> (Ar\<lparr>ArData := rest\<rparr>, w)
         | _ \<Rightarrow> (Ar\<lparr>ArIsError := True\<rparr>, v))
      else (Ar\<lparr>ArData := ArData Ar @ [ArBox v]\<rparr>, v))"

definition ser_Bool :: "'a FArchive \<Rightarrow> bool \<Rightarrow> 'a FArchive \<times> bool" where
  "ser_Bool Ar v =
     (if ArIsLoading Ar then
        (case ArData Ar of
           ArBool w # rest \<Rightarrow> (Ar\<lparr>ArData := rest\<rparr>, w)
         | _ \<Rightarrow> (Ar\<lparr>ArIsError := True\<rparr>, v))
      else (Ar\<lparr>ArData := ArData Ar @ [ArBool v]\<rparr>, v))"

definition ser_Int32 :: "'a FArchive \<Rightarrow> int32 \<Rightarrow> 'a FArchive \<times> int32" where
  "ser_Int32 Ar v =
     (if ArIsLoading Ar then
        (case ArData Ar of
           ArInt32 w # rest \<Rightarrow> (Ar\<lparr>ArData := rest\<rparr>, w)
         | _ \<Rightarrow> (Ar\<lparr>ArIsError := True\<rparr>, v))
      else (Ar\<lparr>ArData := ArData Ar @ [ArInt32 v]\<rparr>, v))"

text \<open>
  \<open>DualVertexBuffer\<close> is the constant \<^verbatim>\<open>FRuntimeMeshVersion::DualVertexBuffer\<close>,
  declared outside the header and taken as an argument. The result is the archive and
  the section afterwards.
\<close>

definition Serialize ::
  "int \<Rightarrow> 'a FArchive \<Rightarrow> ('a, 'm) FRuntimeMeshSectionInterface_scheme \<Rightarrow>
   'a FArchive \<times> ('a, 'm) FRuntimeMeshSectionInterface_scheme" where
  "Serialize DualVertexBuffer Ar sec =
     (let (Ar1, sec1) =
        (if CustomVer Ar \<ge> DualVertexBuffer
         then (let (Ar', v) = ser_Vectors Ar (PositionVertexBuffer sec)
               in (Ar', sec\<lparr>PositionVertexBuffer := v\<rparr>))
         else (Ar, sec));
          (Ar2, i) = ser_Ints Ar1 (IndexBuffer sec1);
          sec2 = sec1\<lparr>IndexBuffer := i\<rparr>;
          (Ar3, b) = ser_Box Ar2 (LocalBoundingBox sec2);
          sec3 = sec2\<lparr>LocalBoundingBox := b\<rparr>;
          (Ar4, c) = ser_Bool Ar3 (CollisionEnabled sec3);
          sec4 = sec3\<lparr>CollisionEnabled := c\<rparr>;
          (Ar5, vis) = ser_Bool Ar4 (bIsVisible sec4);
          sec5 = sec4\<lparr>bIsVisible := vis\<rparr>;
          (Ar6, UpdateFreq) = ser_Int32 Ar5 (int32_of_EUpdateFrequency (UpdateFrequency sec5))
      in (Ar6, sec5\<lparr>UpdateFrequency := EUpdateFrequency_of_int32 UpdateFreq\<rparr>))"

section \<open>The templated section\<close>

text \<open>
  \<^verbatim>\<open>FRuntimeMeshVertexTraits<Type>\<close> says whether the vertex type carries its position;
  \<open>Position\<close> reads that member and is only used when it does.
\<close>

record ('v, 'a) FRuntimeMeshVertexTraits =
  HasPosition :: bool
  Position :: "'v \<Rightarrow> 'a float FVector"

record ('a, 'v) FRuntimeMeshSection = "'a FRuntimeMeshSectionInterface" +
  VertexBuffer :: "'v list"

text \<open>
  The constructor sets the buffer mode, the empty box and three flags; the buffers start
  empty. It leaves \<^verbatim>\<open>bShouldUseAdjacencyIndexBuffer\<close> and \<^verbatim>\<open>UpdateFrequency\<close>
  uninitialised: the model takes what they hold as arguments.
\<close>

definition FRuntimeMeshSection_new ::
  "bool \<Rightarrow> EUpdateFrequency \<Rightarrow> bool \<Rightarrow> ('a::zero, 'v) FRuntimeMeshSection" where
  "FRuntimeMeshSection_new adj0 freq0 bInNeedsPositionOnlyBuffer =
     \<lparr>bNeedsPositionOnlyBuffer = bInNeedsPositionOnlyBuffer,
      PositionVertexBuffer = [],
      IndexBuffer = [],
      TessellationIndexBuffer = [],
      LocalBoundingBox = FBox_Init,
      CollisionEnabled = False,
      bIsVisible = True,
      bCastsShadow = True,
      bShouldUseAdjacencyIndexBuffer = adj0,
      UpdateFrequency = freq0,
      bIsInternalSectionType = False,
      VertexBuffer = []\<rparr>"

subsection \<open>GetAllVertexPositions\<close>

function add_loop :: "('v \<Rightarrow> 'a float FVector) \<Rightarrow> 'v list \<Rightarrow> nat \<Rightarrow> nat \<Rightarrow> 'a float FVector list \<Rightarrow> 'a float FVector list" where
  "add_loop pos VBuf VertexCount VertIdx Positions =
     (if VertIdx < VertexCount
      then add_loop pos VBuf VertexCount (VertIdx + 1)
             (Positions @ [pos (VBuf ! VertIdx)])
      else Positions)"
  by pat_completeness auto
termination
  by (relation "measure (\<lambda>(pos, VBuf, VertexCount, VertIdx, Positions). VertexCount - VertIdx)") auto

text \<open>
  The two overloads; \<open>VBuf\<close> and \<open>PBuf\<close> are the arguments \<^verbatim>\<open>VertexBuffer\<close> and
  \<^verbatim>\<open>PositionVertexBuffer\<close>. The result is the returned count and the caller's array
  afterwards.
\<close>

definition GetAllVertexPositions_HasPosition ::
  "('v \<Rightarrow> 'a float FVector) \<Rightarrow> 'v list \<Rightarrow> 'a float FVector list \<Rightarrow> 'a float FVector list \<Rightarrow> nat \<times> 'a float FVector list" where
  "GetAllVertexPositions_HasPosition pos VBuf PBuf Positions =
     (let VertexCount = length VBuf
      in (VertexCount, add_loop pos VBuf VertexCount 0 Positions))"

definition GetAllVertexPositions_NoPosition ::
  "'v list \<Rightarrow> 'a float FVector list \<Rightarrow> 'a float FVector list \<Rightarrow> nat \<times> 'a float FVector list" where
  "GetAllVertexPositions_NoPosition VBuf PBuf Positions =
     (length PBuf, Positions @ PBuf)"

definition GetAllVertexPositions ::
  "('v, 'a) FRuntimeMeshVertexTraits \<Rightarrow> 'a float FVector list \<Rightarrow> ('a, 'v) FRuntimeMeshSection \<Rightarrow>
   nat \<times> 'a float FVector list" where
  "GetAllVertexPositions tr Positions sec =
     (if HasPosition tr
      then GetAllVertexPositions_HasPosition (Position tr) (VertexBuffer sec)
             (PositionVertexBuffer sec) Positions
      else GetAllVertexPositions_NoPosition (VertexBuffer sec) (PositionVertexBuffer sec) Positions)"

subsection \<open>UpdateVertexBuffer\<close>

text \<open>
  The two overloads of \<^verbatim>\<open>UpdateVertexBufferInternal\<close>; \<open>VBuf\<close> and \<open>LBox\<close> are
  the reference arguments \<^verbatim>\<open>VertexBuffer\<close> and \<^verbatim>\<open>LocalBoundingBox\<close>. The result is the
  returned flag, the vertex buffer, the bounding box and the caller's array afterwards.
\<close>

definition UpdateVertexBufferInternal_HasPosition ::
  "('v \<Rightarrow> 'a::{linorder,zero} float FVector) \<Rightarrow> 'v \<Rightarrow> 'v list \<Rightarrow> 'a float FBox \<Rightarrow> 'v list \<Rightarrow>
   'a float FBox option \<Rightarrow> bool \<Rightarrow> bool \<times> 'v list \<times> 'a float FBox \<times> 'v list" where
  "UpdateVertexBufferInternal_HasPosition pos u VBuf LBox Vertices
       BoundingBox bShouldMoveArray =
     (let (VertexBuffer1, Vertices1, NewBoundingBox) =
        (if bShouldMoveArray then
           (case BoundingBox of
              None \<Rightarrow> (Vertices, [], bounds_loop pos Vertices 0 FBox_Init)
            | Some B \<Rightarrow> (Vertices, [], B))
         else
           (case BoundingBox of
              None \<Rightarrow>
                (let NumVertices = length Vertices;
                     Buf = SetNumUninitialized u NumVertices VBuf;
                     (Box, Buf') = copy_loop pos Vertices NumVertices 0 FBox_Init Buf
                 in (Buf', Vertices, Box))
            | Some B \<Rightarrow> (Vertices, Vertices, B)))
      in if \<not> FBox_eq LBox NewBoundingBox
         then (True, VertexBuffer1, NewBoundingBox, Vertices1)
         else (False, VertexBuffer1, LBox, Vertices1))"

definition UpdateVertexBufferInternal_NoPosition ::
  "'v list \<Rightarrow> 'a float FBox \<Rightarrow> 'v list \<Rightarrow> 'a float FBox option \<Rightarrow> bool \<Rightarrow>
   bool \<times> 'v list \<times> 'a float FBox \<times> 'v list" where
  "UpdateVertexBufferInternal_NoPosition VBuf LBox Vertices
       BoundingBox bShouldMoveArray =
     (if bShouldMoveArray then (False, Vertices, LBox, [])
      else (False, Vertices, LBox, Vertices))"

definition UpdateVertexBufferInternal ::
  "('v, 'a::{linorder,zero}) FRuntimeMeshVertexTraits \<Rightarrow> 'v \<Rightarrow> 'v list \<Rightarrow> 'a float FBox \<Rightarrow> 'v list \<Rightarrow>
   'a float FBox option \<Rightarrow> bool \<Rightarrow> bool \<times> 'v list \<times> 'a float FBox \<times> 'v list" where
  "UpdateVertexBufferInternal tr u VBuf LBox Vertices BoundingBox
       bShouldMoveArray =
     (if HasPosition tr
      then UpdateVertexBufferInternal_HasPosition (Position tr) u VBuf LBox
             Vertices BoundingBox bShouldMoveArray
      else UpdateVertexBufferInternal_NoPosition VBuf LBox Vertices
             BoundingBox bShouldMoveArray)"

definition UpdateVertexBuffer ::
  "('v, 'a::{linorder,zero}) FRuntimeMeshVertexTraits \<Rightarrow> 'v \<Rightarrow> 'v list \<Rightarrow> 'a float FBox option \<Rightarrow> bool \<Rightarrow>
   ('a, 'v) FRuntimeMeshSection \<Rightarrow> bool \<times> ('a, 'v) FRuntimeMeshSection \<times> 'v list" where
  "UpdateVertexBuffer tr u Vertices BoundingBox bShouldMoveArray sec =
     (let (r, vb, box, Vertices1) =
        UpdateVertexBufferInternal tr u (VertexBuffer sec) (LocalBoundingBox sec) Vertices
          BoundingBox bShouldMoveArray
      in (r, sec\<lparr>VertexBuffer := vb, LocalBoundingBox := box\<rparr>, Vertices1))"

subsection \<open>GenerateTessellationIndices\<close>

text \<open>
  The index generators belong to \<^verbatim>\<open>URuntimeMeshLibrary\<close>, outside the header: \<open>genDual\<close>
  and \<open>genSingle\<close> stand for its two overloads and give the array they fill.
\<close>

definition GenerateTessellationIndices ::
  "('a float FVector list \<Rightarrow> 'v list \<Rightarrow> int32 list \<Rightarrow> int32 list) \<Rightarrow>
   ('v list \<Rightarrow> int32 list \<Rightarrow> int32 list) \<Rightarrow>
   ('a, 'v) FRuntimeMeshSection \<Rightarrow> ('a, 'v) FRuntimeMeshSection" where
  "GenerateTessellationIndices genDual genSingle sec =
     (let TessellationIndices =
        (if IsDualBufferSection sec
         then genDual (PositionVertexBuffer sec) (VertexBuffer sec) (IndexBuffer sec)
         else genSingle (VertexBuffer sec) (IndexBuffer sec))
      in fst (UpdateTessellationIndexBuffer TessellationIndices True sec))"

subsection \<open>The data handed to the render thread\<close>

text \<open>
  Modelled from the spec: the proxy and the command classes are declared in
  \<^verbatim>\<open>RuntimeMeshSectionProxy.h\<close>, outside the header; the spec has them as payloads that
  hold copies of the buffers. A proxy is modelled as the arguments it is constructed from
  (the material relevance is derived from the scene and the material), \<open>NewProxy\<close>
  being the one the section constructs for its buffer mode; what its
  \<^verbatim>\<open>ShouldUseAdjacencyIndexBuffer()\<close> reports is the argument \<open>adjacency\<close> of the
  functions below. A command holds the members the header assigns; a new one has empty
  arrays and cleared flags.
\<close>

record ('sc, 'mat) FRuntimeMeshSectionProxy =
  px_NeedsPositionOnlyBuffer :: bool
  px_Scene :: 'sc
  px_UpdateFrequency :: EUpdateFrequency
  px_bIsVisible :: bool
  px_bCastsShadow :: bool
  px_Material :: "'mat option"

record ('a, 'v, 'sc, 'mat) FRuntimeMeshSectionCreateData =
  cd_NewProxy :: "('sc, 'mat) FRuntimeMeshSectionProxy option"
  cd_PositionVertexBuffer :: "'a float FVector list"
  cd_VertexBuffer :: "'v list"
  cd_IndexBuffer :: "int32 list"
  cd_bIsAdjacencyIndexBuffer :: bool

definition FRuntimeMeshSectionCreateData_new :: "('a, 'v, 'sc, 'mat) FRuntimeMeshSectionCreateData" where
  "FRuntimeMeshSectionCreateData_new =
     \<lparr>cd_NewProxy = None, cd_PositionVertexBuffer = [], cd_VertexBuffer = [],
      cd_IndexBuffer = [], cd_bIsAdjacencyIndexBuffer = False\<rparr>"

record ('a, 'v) FRuntimeMeshSectionUpdateData =
  ud_bIncludeVertexBuffer :: bool
  ud_bIncludePositionBuffer :: bool
  ud_bIncludeIndices :: bool
  ud_PositionVertexBuffer :: "'a float FVector list"
  ud_VertexBuffer :: "'v list"
  ud_IndexBuffer :: "int32 list"
  ud_bIsAdjacencyIndexBuffer :: bool

definition FRuntimeMeshSectionUpdateData_new :: "('a, 'v) FRuntimeMeshSectionUpdateData" where
  "FRuntimeMeshSectionUpdateData_new =
     \<lparr>ud_bIncludeVertexBuffer = False, ud_bIncludePositionBuffer = False,
      ud_bIncludeIndices = False, ud_PositionVertexBuffer = [], ud_VertexBuffer = [],
      ud_IndexBuffer = [], ud_bIsAdjacencyIndexBuffer = False\<rparr>"

text \<open>
  \<^verbatim>\<open>GetSectionCreationData\<close> is declared \<^verbatim>\<open>const\<close> and writes the section's adjacency
  flag through a \<^verbatim>\<open>const_cast\<close>: the result is the command and the section afterwards.
\<close>

definition FRuntimeMeshSectionProxy_new ::
  "bool \<Rightarrow> 'sc \<Rightarrow> EUpdateFrequency \<Rightarrow> bool \<Rightarrow> bool \<Rightarrow> 'mat option \<Rightarrow>
   ('sc, 'mat) FRuntimeMeshSectionProxy" where
  "FRuntimeMeshSectionProxy_new NeedsPositionOnlyBuffer InScene InUpdateFrequency bInIsVisible
       bInCastsShadow InMaterial =
     \<lparr>px_NeedsPositionOnlyBuffer = NeedsPositionOnlyBuffer,
      px_Scene = InScene,
      px_UpdateFrequency = InUpdateFrequency,
      px_bIsVisible = bInIsVisible,
      px_bCastsShadow = bInCastsShadow,
      px_Material = InMaterial\<rparr>"

definition NewProxy ::
  "'sc \<Rightarrow> 'mat option \<Rightarrow> ('a, 'm) FRuntimeMeshSectionInterface_scheme \<Rightarrow>
   ('sc, 'mat) FRuntimeMeshSectionProxy" where
  "NewProxy InScene InMaterial sec =
     (if IsDualBufferSection sec
      then FRuntimeMeshSectionProxy_new True InScene (UpdateFrequency sec) (bIsVisible sec)
             (bCastsShadow sec) InMaterial
      else FRuntimeMeshSectionProxy_new False InScene (UpdateFrequency sec) (bIsVisible sec)
             (bCastsShadow sec) InMaterial)"

definition GetSectionCreationData ::
  "(('sc, 'mat) FRuntimeMeshSectionProxy \<Rightarrow> bool) \<Rightarrow> 'sc \<Rightarrow> 'mat option \<Rightarrow>
   ('a, 'v) FRuntimeMeshSection \<Rightarrow>
   ('a, 'v, 'sc, 'mat) FRuntimeMeshSectionCreateData \<times> ('a, 'v) FRuntimeMeshSection" where
  "GetSectionCreationData adjacency InScene InMaterial sec =
     (let UpdateData0 = FRuntimeMeshSectionCreateData_new;
          UpdateData1 =
            (if IsDualBufferSection sec
             then UpdateData0\<lparr>cd_NewProxy := Some (NewProxy InScene InMaterial sec),
                              cd_PositionVertexBuffer := PositionVertexBuffer sec\<rparr>
             else UpdateData0\<lparr>cd_NewProxy := Some (NewProxy InScene InMaterial sec)\<rparr>);
          sec1 = sec\<lparr>bShouldUseAdjacencyIndexBuffer :=
                       adjacency (NewProxy InScene InMaterial sec)\<rparr>;
          UpdateData2 = UpdateData1\<lparr>cd_VertexBuffer := VertexBuffer sec1\<rparr>;
          UpdateData3 =
            (if bShouldUseAdjacencyIndexBuffer sec1 \<and> length (TessellationIndexBuffer sec1) > 0
             then UpdateData2\<lparr>cd_IndexBuffer := TessellationIndexBuffer sec1,
                              cd_bIsAdjacencyIndexBuffer := True\<rparr>
             else UpdateData2\<lparr>cd_IndexBuffer := IndexBuffer sec1,
                              cd_bIsAdjacencyIndexBuffer := False\<rparr>)
      in (UpdateData3, sec1))"

definition GetSectionUpdateData ::
  "bool \<Rightarrow> bool \<Rightarrow> bool \<Rightarrow> ('a, 'v) FRuntimeMeshSection \<Rightarrow> ('a, 'v) FRuntimeMeshSectionUpdateData" where
  "GetSectionUpdateData bIncludePositionVertices bIncludeVertices bIncludeIndices sec =
     (let UpdateData0 = FRuntimeMeshSectionUpdateData_new
            \<lparr>ud_bIncludeVertexBuffer := bIncludeVertices,
             ud_bIncludePositionBuffer := bIncludePositionVertices,
             ud_bIncludeIndices := bIncludeIndices\<rparr>;
          UpdateData1 =
            (if bIncludePositionVertices
             then UpdateData0\<lparr>ud_PositionVertexBuffer := PositionVertexBuffer sec\<rparr>
             else UpdateData0);
          UpdateData2 =
            (if bIncludeVertices
             then UpdateData1\<lparr>ud_VertexBuffer := VertexBuffer sec\<rparr>
             else UpdateData1);
          UpdateData3 =
            (if bIncludeIndices then
               (if bShouldUseAdjacencyIndexBuffer sec \<and> length (TessellationIndexBuffer sec) > 0
                then UpdateData2\<lparr>ud_IndexBuffer := TessellationIndexBuffer sec,
                                 ud_bIsAdjacencyIndexBuffer := True\<rparr>
                else UpdateData2\<lparr>ud_IndexBuffer := IndexBuffer sec,
                                 ud_bIsAdjacencyIndexBuffer := False\<rparr>)
             else UpdateData2)
      in UpdateData3)"

section \<open>Reference notions and sample data\<close>

text \<open>
  The tight axis-aligned box of a sequence of positions whose coordinates are numbers, as
  the spec words it: the empty box for no position, else the componentwise least and
  greatest coordinates.
\<close>

definition tight_box_spec :: "'a::{linorder,zero} FVector list \<Rightarrow> 'a FBox" where
  "tight_box_spec P =
     (if P = []
      then \<lparr>Min_b = \<lparr>X = 0, Y = 0, Z = 0\<rparr>, Max_b = \<lparr>X = 0, Y = 0, Z = 0\<rparr>, IsValid = False\<rparr>
      else \<lparr>Min_b = \<lparr>X = Min (X ` set P), Y = Min (Y ` set P), Z = Min (Z ` set P)\<rparr>,
            Max_b = \<lparr>X = Max (X ` set P), Y = Max (Y ` set P), Z = Max (Z ` set P)\<rparr>,
            IsValid = True\<rparr>)"

text \<open>A position and a box of numbers as the floats the section stores.\<close>

definition FVector_num :: "'a FVector \<Rightarrow> 'a float FVector" where
  "FVector_num p = \<lparr>X = Num (X p), Y = Num (Y p), Z = Num (Z p)\<rparr>"

definition FBox_num :: "'a FBox \<Rightarrow> 'a float FBox" where
  "FBox_num b =
     \<lparr>Min_b = FVector_num (Min_b b), Max_b = FVector_num (Max_b b), IsValid = IsValid b\<rparr>"

text \<open>
  The bounds an update computes or is given: the box accumulated from the empty box over
  the positions read by \<open>pos\<close>, in order, when no box is supplied; the supplied box
  otherwise.
\<close>

definition computed_bounds :: "('v \<Rightarrow> 'a::{linorder,zero} float FVector) \<Rightarrow> 'v list \<Rightarrow> 'a float FBox" where
  "computed_bounds pos Vs = fold (\<lambda>v b. FBox_add b (pos v)) Vs FBox_Init"

definition new_bounds ::
  "('v \<Rightarrow> 'a::{linorder,zero} float FVector) \<Rightarrow> 'v list \<Rightarrow> 'a float FBox option \<Rightarrow> 'a float FBox" where
  "new_bounds pos Vs BoundingBox =
     (case BoundingBox of None \<Rightarrow> computed_bounds pos Vs | Some B \<Rightarrow> B)"

text \<open>
  The positions a section holds for its layout: read from the vertex records when the
  vertex type carries its position, the position-only stream otherwise.
\<close>

definition section_positions ::
  "('v, 'a) FRuntimeMeshVertexTraits \<Rightarrow> ('a, 'v) FRuntimeMeshSection \<Rightarrow> 'a float FVector list" where
  "section_positions tr sec =
     (if HasPosition tr then map (Position tr) (VertexBuffer sec) else PositionVertexBuffer sec)"

text \<open>
  Writing a section at a format version and reading the stream into another one: the
  result is the reading archive and the section read.
\<close>

definition save_then_load ::
  "int \<Rightarrow> int \<Rightarrow> ('a, 'm) FRuntimeMeshSectionInterface_scheme \<Rightarrow>
   ('a, 'm) FRuntimeMeshSectionInterface_scheme \<Rightarrow>
   'a FArchive \<times> ('a, 'm) FRuntimeMeshSectionInterface_scheme" where
  "save_then_load DualVertexBuffer ver s t =
     (let (Ar, s') = Serialize DualVertexBuffer
            \<lparr>ArIsLoading = False, ArIsError = False, CustomVer = ver, ArData = []\<rparr> s
      in Serialize DualVertexBuffer (Ar\<lparr>ArIsLoading := True\<rparr>) t)"

text \<open>
  Sample data: the unit square in the plane \<open>z = 0\<close> with its two triangles, a vertex
  type with an embedded position (a position and a colour number) and one without (the
  colour number alone), and a pair of positions of which one has a NaN coordinate.
\<close>

definition pt :: "int \<Rightarrow> int \<Rightarrow> int \<Rightarrow> int FVector" where
  "pt x y z = \<lparr>X = x, Y = y, Z = z\<rparr>"

definition vec :: "int \<Rightarrow> int \<Rightarrow> int \<Rightarrow> int float FVector" where
  "vec x y z = \<lparr>X = Num x, Y = Num y, Z = Num z\<rparr>"

definition square_points :: "int FVector list" where
  "square_points = [pt 0 0 0, pt 1 0 0, pt 1 1 0, pt 0 1 0]"

definition square_positions :: "int float FVector list" where
  "square_positions = [vec 0 0 0, vec 1 0 0, vec 1 1 0, vec 0 1 0]"

definition nan_positions :: "int float FVector list" where
  "nan_positions = [vec 1 2 3, \<lparr>X = NaN, Y = Num 0, Z = Num 0\<rparr>]"

definition origin_box :: "int float FBox" where
  "origin_box = \<lparr>Min_b = vec 0 0 0, Max_b = vec 0 0 0, IsValid = True\<rparr>"

definition square_indices :: "int32 list" where
  "square_indices = [0, 1, 2, 0, 2, 3]"

definition embedded_fst :: "int float FVector \<times> nat \<Rightarrow> int float FVector" where
  "embedded_fst v = fst v"

definition embedded_traits :: "(int float FVector \<times> nat, int) FRuntimeMeshVertexTraits" where
  "embedded_traits = \<lparr>HasPosition = True, Position = embedded_fst\<rparr>"

definition no_position :: "nat \<Rightarrow> int float FVector" where
  "no_position v = ZeroVector"

definition external_traits :: "(nat, int) FRuntimeMeshVertexTraits" where
  "external_traits = \<lparr>HasPosition = False, Position = no_position\<rparr>"

definition new_dual_section :: "(int, nat) FRuntimeMeshSection" where
  "new_dual_section = FRuntimeMeshSection_new False 0 True"

definition dual_section :: "(int, nat) FRuntimeMeshSection" where
  "dual_section =
     (FRuntimeMeshSection_new False 0 True)
       \<lparr>PositionVertexBuffer := square_positions, IndexBuffer := square_indices,
        LocalBoundingBox := \<lparr>Min_b = vec 0 0 0, Max_b = vec 1 1 0, IsValid = True\<rparr>,
        VertexBuffer := [7, 7, 7, 7]\<rparr>"

definition single_section :: "(int, int float FVector \<times> nat) FRuntimeMeshSection" where
  "single_section =
     (FRuntimeMeshSection_new False 0 False)
       \<lparr>IndexBuffer := square_indices,
        VertexBuffer := [(vec 0 0 0, 1), (vec 1 0 0, 2), (vec 1 1 0, 3), (vec 0 1 0, 4)]\<rparr>"

definition new_single_section :: "(int, int float FVector \<times> nat) FRuntimeMeshSection" where
  "new_single_section = FRuntimeMeshSection_new False 0 False"

definition gen_dual :: "int float FVector list \<Rightarrow> nat list \<Rightarrow> int32 list \<Rightarrow> int32 list" where
  "gen_dual P V I = I @ I"

definition gen_single :: "nat list \<Rightarrow> int32 list \<Rightarrow> int32 list" where
  "gen_single V I = I @ I"

definition tessellated_section :: "(int, nat) FRuntimeMeshSection" where
  "tessellated_section =
     (GenerateTessellationIndices gen_dual gen_single dual_section)
       \<lparr>bShouldUseAdjacencyIndexBuffer := True\<rparr>"

definition reports_no_adjacency :: "(unit, unit) FRuntimeMeshSectionProxy \<Rightarrow> bool" where
  "reports_no_adjacency px = False"

definition reports_adjacency :: "(unit, unit) FRuntimeMeshSectionProxy \<Rightarrow> bool" where
  "reports_adjacency px = True"

section \<open>The loops as folds\<close>

declare bounds_loop.simps [simp del] copy_loop.simps [simp del] add_loop.simps [simp del]

lemma bounds_loop_fold:
  "bounds_loop pos Buf i bb = fold (\<lambda>v b. FBox_add b (pos v)) (drop i Buf) bb"
proof (induction pos Buf i bb rule: bounds_loop.induct)
  case (1 pos Buf i bb)
  show ?case
  proof (cases "i < length Buf")
    case True
    then have d: "drop i Buf = Buf ! i # drop (Suc i) Buf"
      by (simp add: Cons_nth_drop_Suc)
    from True 1 show ?thesis
      by (subst bounds_loop.simps) (simp add: d)
  next
    case False
    then show ?thesis by (subst bounds_loop.simps) simp
  qed
qed

lemma copy_loop_fold:
  "i \<le> N \<Longrightarrow> length Src = N \<Longrightarrow> length Dst = N \<Longrightarrow>
   copy_loop pos Src N i bb Dst =
     (fold (\<lambda>v b. FBox_add b (pos v)) (drop i Src) bb, take i Dst @ drop i Src)"
proof (induction pos Src N i bb Dst rule: copy_loop.induct)
  case (1 pos Src N i bb Dst)
  show ?case
  proof (cases "i < N")
    case True
    with 1 have d: "drop i Src = Src ! i # drop (Suc i) Src"
      by (simp add: Cons_nth_drop_Suc)
    have t: "take (Suc i) (Dst[i := Src ! i]) = take i Dst @ [Src ! i]"
      using True 1(4) by (simp add: take_Suc_conv_app_nth)
    from True 1 show ?thesis
      by (subst copy_loop.simps) (simp add: d t)
  next
    case False
    with 1 show ?thesis by (subst copy_loop.simps) simp
  qed
qed

lemma add_loop_map:
  "N = length VB \<Longrightarrow> add_loop pos VB N i Ps = Ps @ map pos (drop i VB)"
proof (induction pos VB N i Ps rule: add_loop.induct)
  case (1 pos VB N i Ps)
  show ?case
  proof (cases "i < N")
    case True
    with 1 have d: "drop i VB = VB ! i # drop (Suc i) VB"
      by (simp add: Cons_nth_drop_Suc)
    from True 1 show ?thesis
      by (subst add_loop.simps) (simp add: d)
  next
    case False
    with 1 show ?thesis by (subst add_loop.simps) simp
  qed
qed

lemma length_SetNumUninitialized: "length (SetNumUninitialized u n xs) = n"
  by (simp add: SetNumUninitialized_def)

section \<open>The comparison of floats, vectors and boxes\<close>

lemma float_eq_imp_eq: "float_eq a b \<Longrightarrow> a = b"
  by (cases a; cases b) simp_all

lemma float_eq_Num_refl: "float_eq (Num x) (Num x)"
  by simp

lemma FVector_eq_imp_eq:
  fixes A B :: "'a float FVector"
  assumes "FVector_eq A B"
  shows "A = B"
proof -
  from assms have "X A = X B" "Y A = Y B" "Z A = Z B"
    by (auto simp: FVector_eq_def dest: float_eq_imp_eq)
  then show ?thesis by simp
qed

lemma FVector_eq_num: "FVector_eq (FVector_num p) (FVector_num p)"
  by (simp add: FVector_eq_def FVector_num_def)

lemma FBox_eq_extents:
  fixes A B :: "'a float FBox"
  assumes "FBox_eq A B"
  shows "Min_b A = Min_b B \<and> Max_b A = Max_b B"
  using assms by (auto simp: FBox_eq_def dest: FVector_eq_imp_eq)

lemma FBox_eq_num_iff:
  "FBox_eq A (FBox_num t) =
     (Min_b A = FVector_num (Min_b t) \<and> Max_b A = FVector_num (Max_b t))"
proof
  assume "FBox_eq A (FBox_num t)"
  from FBox_eq_extents [OF this] show
    "Min_b A = FVector_num (Min_b t) \<and> Max_b A = FVector_num (Max_b t)"
    by (simp add: FBox_num_def)
next
  assume "Min_b A = FVector_num (Min_b t) \<and> Max_b A = FVector_num (Max_b t)"
  then show "FBox_eq A (FBox_num t)"
    by (simp add: FBox_eq_def FBox_num_def FVector_eq_num)
qed

section \<open>Accumulating a box over numbers is taking the tight box\<close>

lemma FMath_Min_Num: "FMath_Min (Num a) (Num b) = Num (min a b)"
  by (simp add: FMath_Min_def min_def)

lemma FMath_Max_Num: "FMath_Max (Num a) (Num b) = Num (max a b)"
  by (auto simp: FMath_Max_def max_def)

lemma FBox_add_num:
  "IsValid b \<Longrightarrow>
   FBox_add (FBox_num b) (FVector_num q) =
     FBox_num \<lparr>Min_b = \<lparr>X = min (X (Min_b b)) (X q), Y = min (Y (Min_b b)) (Y q),
                         Z = min (Z (Min_b b)) (Z q)\<rparr>,
               Max_b = \<lparr>X = max (X (Max_b b)) (X q), Y = max (Y (Max_b b)) (Y q),
                         Z = max (Z (Max_b b)) (Z q)\<rparr>,
               IsValid = True\<rparr>"
  by (simp add: FBox_add_def FBox_num_def FVector_num_def FMath_Min_Num FMath_Max_Num)

lemma fold_FBox_add_num:
  "IsValid b \<Longrightarrow>
   fold (\<lambda>v bb. FBox_add bb v) (map FVector_num qs) (FBox_num b) =
     FBox_num \<lparr>Min_b = \<lparr>X = fold min (map X qs) (X (Min_b b)),
                         Y = fold min (map Y qs) (Y (Min_b b)),
                         Z = fold min (map Z qs) (Z (Min_b b))\<rparr>,
               Max_b = \<lparr>X = fold max (map X qs) (X (Max_b b)),
                         Y = fold max (map Y qs) (Y (Max_b b)),
                         Z = fold max (map Z qs) (Z (Max_b b))\<rparr>,
               IsValid = True\<rparr>"
proof (induction qs arbitrary: b)
  case Nil
  then show ?case by (simp add: FBox_num_def FVector_num_def)
next
  case (Cons q qs)
  show ?case
    using Cons.prems
    by (simp add: FBox_add_num Cons.IH min.commute max.commute)
qed

lemma Min_image_Cons: "Min (f ` set (p # ps)) = fold min (map f ps) (f p)"
  using Min.set_eq_fold [of "f p" "map f ps"] by simp

lemma Max_image_Cons: "Max (f ` set (p # ps)) = fold max (map f ps) (f p)"
  using Max.set_eq_fold [of "f p" "map f ps"] by simp

lemma computed_bounds_tight:
  "computed_bounds (\<lambda>p. p) (map FVector_num Q) = FBox_num (tight_box_spec Q)"
proof (cases Q)
  case Nil
  then show ?thesis
    by (simp add: computed_bounds_def tight_box_spec_def FBox_num_def FVector_num_def
        FBox_Init_def ZeroVector_def)
next
  case (Cons q qs)
  have e: "FBox_add FBox_Init (FVector_num q) =
      FBox_num \<lparr>Min_b = q, Max_b = q, IsValid = True\<rparr>"
    by (simp add: FBox_add_def FBox_Init_def FBox_num_def)
  have l: "q # qs \<noteq> []" by simp
  show ?thesis
    unfolding Cons tight_box_spec_def if_not_P [OF l] Min_image_Cons Max_image_Cons
    by (simp add: computed_bounds_def e fold_FBox_add_num)
qed

text \<open>The tight box holds every position, and each of its six extents is attained.\<close>

lemma tight_box_spec_encloses:
  assumes "p \<in> set P"
  shows "X (Min_b (tight_box_spec P)) \<le> X p \<and> X p \<le> X (Max_b (tight_box_spec P)) \<and>
         Y (Min_b (tight_box_spec P)) \<le> Y p \<and> Y p \<le> Y (Max_b (tight_box_spec P)) \<and>
         Z (Min_b (tight_box_spec P)) \<le> Z p \<and> Z p \<le> Z (Max_b (tight_box_spec P))"
proof -
  from assms have "P \<noteq> []" by auto
  with assms show ?thesis by (simp add: tight_box_spec_def)
qed

lemma tight_box_spec_attained:
  assumes "P \<noteq> []"
  shows "X (Min_b (tight_box_spec P)) \<in> X ` set P \<and> X (Max_b (tight_box_spec P)) \<in> X ` set P \<and>
         Y (Min_b (tight_box_spec P)) \<in> Y ` set P \<and> Y (Max_b (tight_box_spec P)) \<in> Y ` set P \<and>
         Z (Min_b (tight_box_spec P)) \<in> Z ` set P \<and> Z (Max_b (tight_box_spec P)) \<in> Z ` set P"
  using assms by (simp add: tight_box_spec_def)

section \<open>What the buffer updates compute\<close>

lemma UpdateVertexPositionBuffer_eq:
  "UpdateVertexPositionBuffer u Positions BoundingBox mv sec =
     (\<not> FBox_eq (LocalBoundingBox sec) (new_bounds (\<lambda>p. p) Positions BoundingBox),
      (if FBox_eq (LocalBoundingBox sec) (new_bounds (\<lambda>p. p) Positions BoundingBox)
       then sec\<lparr>PositionVertexBuffer := Positions\<rparr>
       else sec\<lparr>PositionVertexBuffer := Positions,
                LocalBoundingBox := new_bounds (\<lambda>p. p) Positions BoundingBox\<rparr>),
      (if mv then [] else Positions))"
proof (cases BoundingBox)
  case None
  show ?thesis
    by (simp add: UpdateVertexPositionBuffer_def new_bounds_def computed_bounds_def None
        bounds_loop_fold copy_loop_fold length_SetNumUninitialized)
next
  case (Some B)
  then show ?thesis
    by (simp add: UpdateVertexPositionBuffer_def new_bounds_def)
qed

lemma UpdateVertexBufferInternal_HasPosition_eq:
  "UpdateVertexBufferInternal_HasPosition pos u VBuf LBox Vertices BoundingBox mv =
     (\<not> FBox_eq LBox (new_bounds pos Vertices BoundingBox),
      Vertices,
      (if FBox_eq LBox (new_bounds pos Vertices BoundingBox) then LBox
       else new_bounds pos Vertices BoundingBox),
      (if mv then [] else Vertices))"
proof (cases BoundingBox)
  case None
  show ?thesis
    by (simp add: UpdateVertexBufferInternal_HasPosition_def new_bounds_def computed_bounds_def
        None bounds_loop_fold copy_loop_fold length_SetNumUninitialized)
next
  case (Some B)
  then show ?thesis
    by (simp add: UpdateVertexBufferInternal_HasPosition_def new_bounds_def)
qed

lemma UpdateVertexBuffer_eq:
  "UpdateVertexBuffer tr u Vertices BoundingBox mv sec =
     (if HasPosition tr then
        (\<not> FBox_eq (LocalBoundingBox sec) (new_bounds (Position tr) Vertices BoundingBox),
         (if FBox_eq (LocalBoundingBox sec) (new_bounds (Position tr) Vertices BoundingBox)
          then sec\<lparr>VertexBuffer := Vertices\<rparr>
          else sec\<lparr>VertexBuffer := Vertices,
                   LocalBoundingBox := new_bounds (Position tr) Vertices BoundingBox\<rparr>),
         (if mv then [] else Vertices))
      else (False, sec\<lparr>VertexBuffer := Vertices\<rparr>, (if mv then [] else Vertices)))"
  by (simp add: UpdateVertexBuffer_def UpdateVertexBufferInternal_def
      UpdateVertexBufferInternal_HasPosition_eq UpdateVertexBufferInternal_NoPosition_def)

lemma GetAllVertexPositions_eq:
  "GetAllVertexPositions tr A sec =
     (length (section_positions tr sec), A @ section_positions tr sec)"
  by (simp add: GetAllVertexPositions_def GetAllVertexPositions_HasPosition_def
      GetAllVertexPositions_NoPosition_def section_positions_def add_loop_map)

section \<open>What Serialize writes and reads\<close>

lemma EUpdateFrequency_cast_back:
  "EUpdateFrequency_of_int32 (int32_of_EUpdateFrequency f) = f"
  unfolding EUpdateFrequency_of_int32_def int32_of_EUpdateFrequency_def
  by (simp add: ucast_up_ucast_id is_up)

lemma Serialize_save:
  "Serialize dvb \<lparr>ArIsLoading = False, ArIsError = False, CustomVer = ver, ArData = []\<rparr> s =
     (\<lparr>ArIsLoading = False, ArIsError = False, CustomVer = ver,
       ArData = (if dvb \<le> ver then [ArVectors (PositionVertexBuffer s)] else []) @
         [ArInts (IndexBuffer s), ArBox (LocalBoundingBox s), ArBool (CollisionEnabled s),
          ArBool (bIsVisible s), ArInt32 (int32_of_EUpdateFrequency (UpdateFrequency s))]\<rparr>,
      s)"
  by (simp add: Serialize_def ser_Vectors_def ser_Ints_def ser_Box_def ser_Bool_def
      ser_Int32_def EUpdateFrequency_cast_back)

lemma Serialize_load:
  "Serialize dvb \<lparr>ArIsLoading = True, ArIsError = False, CustomVer = ver,
       ArData = (if dvb \<le> ver then [ArVectors P] else []) @
              [ArInts I, ArBox B, ArBool c, ArBool v, ArInt32 f]\<rparr> t =
     (\<lparr>ArIsLoading = True, ArIsError = False, CustomVer = ver, ArData = []\<rparr>,
      t\<lparr>PositionVertexBuffer := (if dvb \<le> ver then P else PositionVertexBuffer t),
        IndexBuffer := I, LocalBoundingBox := B, CollisionEnabled := c,
        bIsVisible := v, UpdateFrequency := EUpdateFrequency_of_int32 f\<rparr>)"
  by (simp add: Serialize_def ser_Vectors_def ser_Ints_def ser_Box_def ser_Bool_def
      ser_Int32_def)

lemma save_then_load_eq:
  "save_then_load dvb ver s t =
     (\<lparr>ArIsLoading = True, ArIsError = False, CustomVer = ver, ArData = []\<rparr>,
      t\<lparr>PositionVertexBuffer := (if dvb \<le> ver then PositionVertexBuffer s else PositionVertexBuffer t),
        IndexBuffer := IndexBuffer s, LocalBoundingBox := LocalBoundingBox s,
        CollisionEnabled := CollisionEnabled s, bIsVisible := bIsVisible s,
        UpdateFrequency := UpdateFrequency s\<rparr>)"
  by (simp add: save_then_load_def Serialize_save Serialize_load EUpdateFrequency_cast_back)

section \<open>What the render-thread commands hold\<close>

lemma NewProxy_adjacency_flag:
  "NewProxy sc mat (sec\<lparr>bShouldUseAdjacencyIndexBuffer := b\<rparr>) = NewProxy sc mat sec"
  by (simp add: NewProxy_def IsDualBufferSection_def)

lemma GetSectionCreationData_section:
  "snd (GetSectionCreationData adjacency sc mat sec) =
     sec\<lparr>bShouldUseAdjacencyIndexBuffer := adjacency (NewProxy sc mat sec)\<rparr>"
  by (simp add: GetSectionCreationData_def Let_def)

lemma GetSectionCreationData_indices:
  "cd_IndexBuffer (fst (GetSectionCreationData adjacency sc mat sec)) =
     (if adjacency (NewProxy sc mat sec) \<and> TessellationIndexBuffer sec \<noteq> []
      then TessellationIndexBuffer sec else IndexBuffer sec) \<and>
   cd_bIsAdjacencyIndexBuffer (fst (GetSectionCreationData adjacency sc mat sec)) =
     (adjacency (NewProxy sc mat sec) \<and> TessellationIndexBuffer sec \<noteq> [])"
  by (simp add: GetSectionCreationData_def Let_def)

lemma GetSectionUpdateData_indices:
  "ud_IndexBuffer (GetSectionUpdateData incP incV True sec) =
     (if bShouldUseAdjacencyIndexBuffer sec \<and> TessellationIndexBuffer sec \<noteq> []
      then TessellationIndexBuffer sec else IndexBuffer sec) \<and>
   ud_bIsAdjacencyIndexBuffer (GetSectionUpdateData incP incV True sec) =
     (bShouldUseAdjacencyIndexBuffer sec \<and> TessellationIndexBuffer sec \<noteq> [])"
  by (simp add: GetSectionUpdateData_def Let_def)

lemma GenerateTessellationIndices_eq:
  "GenerateTessellationIndices genDual genSingle sec =
     sec\<lparr>TessellationIndexBuffer :=
           (if IsDualBufferSection sec
            then genDual (PositionVertexBuffer sec) (VertexBuffer sec) (IndexBuffer sec)
            else genSingle (VertexBuffer sec) (IndexBuffer sec))\<rparr>"
  by (simp add: GenerateTessellationIndices_def UpdateTessellationIndexBuffer_def Let_def)

section \<open>The model run on the sample data\<close>

text \<open>
  The unit square given to a new section: the box found spans the corners \<open>(0,0,0)\<close>
  and \<open>(1,1,0)\<close>, by the copying loop and by the loop after a move alike.
\<close>

lemma UpdateVertexPositionBuffer_square:
  "UpdateVertexPositionBuffer (vec 9 9 9) square_positions None False
     (FRuntimeMeshSection_new False 0 True :: (int, nat) FRuntimeMeshSection) =
   (True,
    (FRuntimeMeshSection_new False 0 True)
      \<lparr>PositionVertexBuffer := square_positions,
       LocalBoundingBox := \<lparr>Min_b = vec 0 0 0, Max_b = vec 1 1 0, IsValid = True\<rparr>\<rparr>,
    square_positions)"
  "UpdateVertexPositionBuffer (vec 9 9 9) square_positions None True
     (FRuntimeMeshSection_new False 0 True :: (int, nat) FRuntimeMeshSection) =
   (True,
    (FRuntimeMeshSection_new False 0 True)
      \<lparr>PositionVertexBuffer := square_positions,
       LocalBoundingBox := \<lparr>Min_b = vec 0 0 0, Max_b = vec 1 1 0, IsValid = True\<rparr>\<rparr>,
    [])"
  by code_simp+

text \<open>
  The comparison of boxes does not read the validity flag. A new section given the single
  position at the origin keeps its stored box, flag included: the box of that position
  has the same extents as the empty box, so the update reports no change.
\<close>

lemma UpdateVertexPositionBuffer_origin:
  "UpdateVertexPositionBuffer (vec 9 9 9) [vec 0 0 0] None False
     (FRuntimeMeshSection_new False 0 True :: (int, nat) FRuntimeMeshSection) =
   (False, (FRuntimeMeshSection_new False 0 True)\<lparr>PositionVertexBuffer := [vec 0 0 0]\<rparr>,
    [vec 0 0 0])"
  by code_simp

lemma GetAllVertexPositions_square:
  "GetAllVertexPositions embedded_traits [vec 5 5 5] single_section =
     (4, vec 5 5 5 # square_positions)"
  "GetAllVertexPositions external_traits [vec 5 5 5] dual_section =
     (4, vec 5 5 5 # square_positions)"
  by code_simp+

section \<open>The claims\<close>

text \<open>
  C1, as stated, fails: the stored bounds are not always the tight box, or the supplied
  box, itself. The update assigns the new box only when its extents differ from the
  stored ones in the code's comparison, which does not read the validity flag. A new
  section holds the empty box, whose extents are zero; given the one position at the
  origin, or the valid box at the origin, it keeps the empty box, which is not valid.
\<close>

theorem C1_stored_box_counterexample:
  "LocalBoundingBox (fst (snd (UpdateVertexPositionBuffer (vec 9 9 9)
       (map FVector_num [pt 0 0 0]) None False new_dual_section))) \<noteq>
     FBox_num (tight_box_spec [pt 0 0 0]) \<and>
   LocalBoundingBox (fst (snd (UpdateVertexPositionBuffer (vec 9 9 9)
       square_positions (Some origin_box) False new_dual_section))) \<noteq> origin_box"
  by code_simp

text \<open>
  C1, amended. For every sequence of positions whose coordinates are numbers,
  \<^verbatim>\<open>UpdateVertexPositionBuffer\<close> called with no bounding box leaves the section's bounds
  with the two extents of the tight axis-aligned box of the sequence (zero extents for
  the empty sequence); called with a box \<open>B\<close> it leaves them with the two extents of
  \<open>B\<close>, whatever the positions are. The stored box is the new box itself, validity flag
  included, when the new extents differ from the stored ones in the code's comparison;
  otherwise the stored box is left as it was.
\<close>

theorem C1_updatePositions_extents:
  "Min_b (LocalBoundingBox (fst (snd (UpdateVertexPositionBuffer u (map FVector_num Q) None mv sec)))) =
     FVector_num (Min_b (tight_box_spec Q)) \<and>
   Max_b (LocalBoundingBox (fst (snd (UpdateVertexPositionBuffer u (map FVector_num Q) None mv sec)))) =
     FVector_num (Max_b (tight_box_spec Q)) \<and>
   Min_b (LocalBoundingBox (fst (snd (UpdateVertexPositionBuffer u [] None mv sec)))) = ZeroVector \<and>
   Max_b (LocalBoundingBox (fst (snd (UpdateVertexPositionBuffer u [] None mv sec)))) = ZeroVector \<and>
   Min_b (LocalBoundingBox (fst (snd (UpdateVertexPositionBuffer u P (Some B) mv sec)))) = Min_b B \<and>
   Max_b (LocalBoundingBox (fst (snd (UpdateVertexPositionBuffer u P (Some B) mv sec)))) = Max_b B \<and>
   (\<not> FBox_eq (LocalBoundingBox sec) (new_bounds (\<lambda>p. p) P BoundingBox) \<longrightarrow>
      LocalBoundingBox (fst (snd (UpdateVertexPositionBuffer u P BoundingBox mv sec))) =
        new_bounds (\<lambda>p. p) P BoundingBox) \<and>
   (FBox_eq (LocalBoundingBox sec) (new_bounds (\<lambda>p. p) P BoundingBox) \<longrightarrow>
      LocalBoundingBox (fst (snd (UpdateVertexPositionBuffer u P BoundingBox mv sec))) =
        LocalBoundingBox sec) \<and>
   PositionVertexBuffer (fst (snd (UpdateVertexPositionBuffer u P BoundingBox mv sec))) = P"
proof -
  have ext: "Min_b (LocalBoundingBox (fst (snd (UpdateVertexPositionBuffer u' P' BB mv sec)))) =
        Min_b (new_bounds (\<lambda>p. p) P' BB) \<and>
      Max_b (LocalBoundingBox (fst (snd (UpdateVertexPositionBuffer u' P' BB mv sec)))) =
        Max_b (new_bounds (\<lambda>p. p) P' BB)" for u' P' BB
    using FBox_eq_extents [of "LocalBoundingBox sec" "new_bounds (\<lambda>p. p) P' BB"]
    by (simp add: UpdateVertexPositionBuffer_eq)
  have t: "new_bounds (\<lambda>p. p) (map FVector_num Q) None = FBox_num (tight_box_spec Q)"
    by (simp add: new_bounds_def computed_bounds_tight)
  have e: "new_bounds (\<lambda>p. p) [] None = (FBox_Init :: 'a float FBox)"
    by (simp add: new_bounds_def computed_bounds_def)
  have b: "new_bounds (\<lambda>p. p) P (Some B) = B"
    by (simp add: new_bounds_def)
  show ?thesis
    using ext [of u "map FVector_num Q" None] ext [of u "[]" None] ext [of u P "Some B"]
    by (simp add: t e b FBox_num_def FBox_Init_def UpdateVertexPositionBuffer_eq)
qed

theorem C1_updatePositions_extents_witness:
  "\<not> FBox_eq (LocalBoundingBox new_dual_section) (new_bounds (\<lambda>p. p) square_positions None) \<and>
   LocalBoundingBox (fst (snd (UpdateVertexPositionBuffer (vec 9 9 9) square_positions None False
       new_dual_section))) = \<lparr>Min_b = vec 0 0 0, Max_b = vec 1 1 0, IsValid = True\<rparr> \<and>
   FBox_eq (LocalBoundingBox new_dual_section) (new_bounds (\<lambda>p. p) [vec 0 0 0] None) \<and>
   LocalBoundingBox (fst (snd (UpdateVertexPositionBuffer (vec 9 9 9) [vec 0 0 0] None False
       new_dual_section))) = FBox_Init"
proof -
  have n: "new_bounds (\<lambda>p. p) square_positions None =
      \<lparr>Min_b = vec 0 0 0, Max_b = vec 1 1 0, IsValid = True\<rparr>"
    "new_bounds (\<lambda>p. p) [vec 0 0 0] None =
      \<lparr>Min_b = vec 0 0 0, Max_b = vec 0 0 0, IsValid = True\<rparr>"
    by code_simp+
  have l: "LocalBoundingBox new_dual_section = FBox_Init"
    by (simp add: new_dual_section_def FRuntimeMeshSection_new_def)
  have c: "\<not> FBox_eq (FBox_Init :: int float FBox) \<lparr>Min_b = vec 0 0 0, Max_b = vec 1 1 0, IsValid = True\<rparr>"
    "FBox_eq (FBox_Init :: int float FBox) \<lparr>Min_b = vec 0 0 0, Max_b = vec 0 0 0, IsValid = True\<rparr>"
    by code_simp+
  show ?thesis
    using C1_updatePositions_extents [where u = "vec 9 9 9" and mv = False
        and sec = new_dual_section and P = square_positions and BoundingBox = None]
      C1_updatePositions_extents [where u = "vec 9 9 9" and mv = False
        and sec = new_dual_section and P = "[vec 0 0 0]" and BoundingBox = None]
    by (simp add: n l c)
qed

text \<open>
  C3, as stated, fails on a NaN coordinate: no comparison with NaN holds, so a box with
  a NaN extent differs from itself, and the second of two calls with the same positions
  returns true again.
\<close>

theorem C3_nan_counterexample:
  "fst (UpdateVertexPositionBuffer (vec 9 9 9) nan_positions None False
     (fst (snd (UpdateVertexPositionBuffer (vec 9 9 9) nan_positions None False
        new_dual_section)))) = True"
  by code_simp

text \<open>
  C3, amended. \<^verbatim>\<open>UpdateVertexPositionBuffer\<close> returns true exactly when the bounds it
  computed or was given differ from the bounds stored before the call in the comparison of
  the two extents, in which a NaN coordinate differs from every coordinate, itself
  included. For positions whose coordinates are numbers the computed bounds are the tight
  box, and a second call with the same positions and no bounding box returns false.
\<close>

theorem C3_updatePositions_return:
  "fst (UpdateVertexPositionBuffer u P BoundingBox mv sec) =
     (\<not> FBox_eq (LocalBoundingBox sec) (new_bounds (\<lambda>p. p) P BoundingBox)) \<and>
   new_bounds (\<lambda>p. p) (map FVector_num Q) None = FBox_num (tight_box_spec Q) \<and>
   fst (UpdateVertexPositionBuffer u2 (map FVector_num Q) None mv2
          (fst (snd (UpdateVertexPositionBuffer u1 (map FVector_num Q) None mv1 sec)))) = False"
proof -
  have t: "new_bounds (\<lambda>p. p) (map FVector_num Q) None = FBox_num (tight_box_spec Q)"
    by (simp add: new_bounds_def computed_bounds_tight)
  have r: "FBox_eq (FBox_num (tight_box_spec Q)) (FBox_num (tight_box_spec Q))"
    by (subst FBox_eq_num_iff) (simp add: FBox_num_def)
  have k: "FBox_eq
      (LocalBoundingBox (fst (snd (UpdateVertexPositionBuffer u1 (map FVector_num Q) None mv1 sec))))
      (FBox_num (tight_box_spec Q))"
    by (cases "FBox_eq (LocalBoundingBox sec) (FBox_num (tight_box_spec Q))")
      (simp_all add: UpdateVertexPositionBuffer_eq t r)
  have 1: "fst (UpdateVertexPositionBuffer u P BoundingBox mv sec) =
      (\<not> FBox_eq (LocalBoundingBox sec) (new_bounds (\<lambda>p. p) P BoundingBox))"
    by (simp add: UpdateVertexPositionBuffer_eq)
  have 3: "fst (UpdateVertexPositionBuffer u2 (map FVector_num Q) None mv2
          (fst (snd (UpdateVertexPositionBuffer u1 (map FVector_num Q) None mv1 sec)))) = False"
    using k by (simp add: UpdateVertexPositionBuffer_eq [of u2] t)
  from 1 t 3 show ?thesis by blast
qed

text \<open>
  C5. For a vertex layout without an embedded position, \<^verbatim>\<open>UpdateVertexBuffer\<close> replaces
  the vertex buffer and nothing else in the section, returns false, and leaves the bounds
  as they were, whatever vertices, bounding box and move flag it is given.
\<close>

theorem C5_dual_updateVertexBuffer:
  assumes "\<not> HasPosition tr"
  shows "fst (UpdateVertexBuffer tr u Vertices BoundingBox mv sec) = False \<and>
         fst (snd (UpdateVertexBuffer tr u Vertices BoundingBox mv sec)) =
           sec\<lparr>VertexBuffer := Vertices\<rparr> \<and>
         LocalBoundingBox (fst (snd (UpdateVertexBuffer tr u Vertices BoundingBox mv sec))) =
           LocalBoundingBox sec"
  using assms by (simp add: UpdateVertexBuffer_eq)

theorem C5_dual_updateVertexBuffer_witness:
  "\<not> HasPosition external_traits \<and>
   fst (UpdateVertexBuffer external_traits 0 [1, 2, 3] (Some FBox_Init) True dual_section) = False \<and>
   fst (snd (UpdateVertexBuffer external_traits 0 [1, 2, 3] (Some FBox_Init) True dual_section)) =
     dual_section\<lparr>VertexBuffer := [1, 2, 3]\<rparr> \<and>
   LocalBoundingBox
       (fst (snd (UpdateVertexBuffer external_traits 0 [1, 2, 3] (Some FBox_Init) True dual_section))) =
     LocalBoundingBox dual_section"
proof -
  have h: "\<not> HasPosition external_traits" by (simp add: external_traits_def)
  show ?thesis
    using h C5_dual_updateVertexBuffer [OF h, of 0 "[1, 2, 3]" "Some FBox_Init" True dual_section]
    by simp
qed

text \<open>
  C6. For a layout without an embedded position, \<^verbatim>\<open>GetAllVertexPositions\<close> hands out
  the position-only stream as it is, with its length as the count, and the vertex buffer
  has no part in the result; for a layout with an embedded position it hands out the
  position of each vertex record in order, with the number of records as the count. The
  choice between the two is made by the vertex type; the section's buffer-mode flag has
  no part in it.
\<close>

theorem C6_getAllVertexPositions:
  "(\<not> HasPosition tr \<longrightarrow>
      GetAllVertexPositions tr [] sec =
        (length (PositionVertexBuffer sec), PositionVertexBuffer sec) \<and>
      GetAllVertexPositions tr [] (sec\<lparr>VertexBuffer := Vs\<rparr>) = GetAllVertexPositions tr [] sec) \<and>
   (HasPosition tr \<longrightarrow>
      GetAllVertexPositions tr [] sec =
        (length (VertexBuffer sec), map (Position tr) (VertexBuffer sec))) \<and>
   GetAllVertexPositions tr [] (sec\<lparr>bNeedsPositionOnlyBuffer := d\<rparr>) =
     GetAllVertexPositions tr [] sec"
  by (simp add: GetAllVertexPositions_eq section_positions_def)

theorem C6_getAllVertexPositions_witness:
  "\<not> HasPosition external_traits \<and> HasPosition embedded_traits \<and>
   GetAllVertexPositions external_traits [] dual_section = (4, square_positions) \<and>
   GetAllVertexPositions external_traits [] (dual_section\<lparr>VertexBuffer := [9]\<rparr>) =
     GetAllVertexPositions external_traits [] dual_section \<and>
   GetAllVertexPositions embedded_traits [] single_section = (4, square_positions)"
proof -
  have h: "\<not> HasPosition external_traits" "HasPosition embedded_traits"
    by (simp_all add: external_traits_def embedded_traits_def)
  have d: "PositionVertexBuffer dual_section = square_positions"
    "length square_positions = 4"
    by (simp_all add: dual_section_def square_positions_def)
  have e: "length (VertexBuffer single_section) = 4"
    "map (Position embedded_traits) (VertexBuffer single_section) = square_positions"
    by (simp_all add: single_section_def embedded_traits_def embedded_fst_def
        square_positions_def FRuntimeMeshSection_new_def)
  show ?thesis
    using h C6_getAllVertexPositions [of external_traits dual_section "[9]" True]
      C6_getAllVertexPositions [of embedded_traits single_section "[]" True]
    by (simp add: d e)
qed

text \<open>
  C7. The buffer updates leave the same section and return the same flag whether the
  caller's array is moved or copied. (The caller's own array is empty after a move and
  untouched after a copy; it is not part of the section.)
\<close>

theorem C7_move_semantics:
  "fst (UpdateVertexPositionBuffer u P BoundingBox True sec) =
     fst (UpdateVertexPositionBuffer u P BoundingBox False sec) \<and>
   fst (snd (UpdateVertexPositionBuffer u P BoundingBox True sec)) =
     fst (snd (UpdateVertexPositionBuffer u P BoundingBox False sec)) \<and>
   fst (UpdateVertexBuffer tr w Vertices BoundingBox True vsec) =
     fst (UpdateVertexBuffer tr w Vertices BoundingBox False vsec) \<and>
   fst (snd (UpdateVertexBuffer tr w Vertices BoundingBox True vsec)) =
     fst (snd (UpdateVertexBuffer tr w Vertices BoundingBox False vsec)) \<and>
   fst (UpdateIndexBuffer Triangles True sec) = fst (UpdateIndexBuffer Triangles False sec) \<and>
   fst (UpdateTessellationIndexBuffer Triangles True sec) =
     fst (UpdateTessellationIndexBuffer Triangles False sec)"
  by (simp add: UpdateVertexPositionBuffer_eq UpdateVertexBuffer_eq UpdateIndexBuffer_def
      UpdateTessellationIndexBuffer_def)

text \<open>
  C8. \<^verbatim>\<open>UpdateIndexBuffer\<close> and \<^verbatim>\<open>UpdateTessellationIndexBuffer\<close> put the given
  indices in their buffer whatever the section held, and change nothing else: bounds,
  position buffer, vertex buffer, the other index buffer and the flags stay.
\<close>

theorem C8_updateIndices_frame:
  fixes sec :: "('a, 'v) FRuntimeMeshSection"
  shows "fst (UpdateIndexBuffer Triangles mv sec) = sec\<lparr>IndexBuffer := Triangles\<rparr> \<and>
   fst (UpdateTessellationIndexBuffer Triangles mv sec) =
     sec\<lparr>TessellationIndexBuffer := Triangles\<rparr> \<and>
   IndexBuffer (fst (UpdateIndexBuffer Triangles mv sec)) = Triangles \<and>
   TessellationIndexBuffer (fst (UpdateIndexBuffer Triangles mv sec)) =
     TessellationIndexBuffer sec \<and>
   LocalBoundingBox (fst (UpdateIndexBuffer Triangles mv sec)) = LocalBoundingBox sec \<and>
   PositionVertexBuffer (fst (UpdateIndexBuffer Triangles mv sec)) = PositionVertexBuffer sec \<and>
   VertexBuffer (fst (UpdateIndexBuffer Triangles mv sec)) = VertexBuffer sec \<and>
   TessellationIndexBuffer (fst (UpdateTessellationIndexBuffer Triangles mv sec)) = Triangles \<and>
   IndexBuffer (fst (UpdateTessellationIndexBuffer Triangles mv sec)) = IndexBuffer sec \<and>
   LocalBoundingBox (fst (UpdateTessellationIndexBuffer Triangles mv sec)) =
     LocalBoundingBox sec \<and>
   PositionVertexBuffer (fst (UpdateTessellationIndexBuffer Triangles mv sec)) =
     PositionVertexBuffer sec \<and>
   VertexBuffer (fst (UpdateTessellationIndexBuffer Triangles mv sec)) = VertexBuffer sec"
  by (simp add: UpdateIndexBuffer_def UpdateTessellationIndexBuffer_def)

text \<open>
  C10. \<^verbatim>\<open>GetAllVertexPositions\<close> does not clear the array it is given: whatever the
  array \<open>A\<close> held, it holds \<open>A\<close> followed by the section's positions afterwards, and
  the returned count is the number of positions added, not the length of the array.
\<close>

theorem C10_getAllVertexPositions_appends:
  "snd (GetAllVertexPositions tr A sec) = A @ section_positions tr sec \<and>
   fst (GetAllVertexPositions tr A sec) = length (section_positions tr sec) \<and>
   take (length A) (snd (GetAllVertexPositions tr A sec)) = A \<and>
   length (snd (GetAllVertexPositions tr A sec)) =
     length A + fst (GetAllVertexPositions tr A sec)"
  by (simp add: GetAllVertexPositions_eq)

text \<open>
  C9. \<^verbatim>\<open>GetSectionCreationData\<close>, declared \<^verbatim>\<open>const\<close>, writes into the section's
  adjacency flag what the proxy it has just created reports, before it chooses the index
  buffer: afterwards the flag is the proxy's report, the choice follows the report, and
  the value the flag had before the call has no effect on the result.
\<close>

theorem C9_creation_overwrites_flag:
  "snd (GetSectionCreationData adjacency sc mat sec) =
     sec\<lparr>bShouldUseAdjacencyIndexBuffer := adjacency (NewProxy sc mat sec)\<rparr> \<and>
   bShouldUseAdjacencyIndexBuffer (snd (GetSectionCreationData adjacency sc mat sec)) =
     adjacency (NewProxy sc mat sec) \<and>
   cd_NewProxy (fst (GetSectionCreationData adjacency sc mat sec)) =
     Some (NewProxy sc mat sec) \<and>
   cd_IndexBuffer (fst (GetSectionCreationData adjacency sc mat sec)) =
     (if adjacency (NewProxy sc mat sec) \<and> TessellationIndexBuffer sec \<noteq> []
      then TessellationIndexBuffer sec else IndexBuffer sec) \<and>
   GetSectionCreationData adjacency sc mat (sec\<lparr>bShouldUseAdjacencyIndexBuffer := b\<rparr>) =
     GetSectionCreationData adjacency sc mat sec"
proof -
  have p: "cd_NewProxy (fst (GetSectionCreationData adjacency sc mat sec)) =
      Some (NewProxy sc mat sec)"
    by (simp add: GetSectionCreationData_def Let_def)
  have e: "GetSectionCreationData adjacency sc mat (sec\<lparr>bShouldUseAdjacencyIndexBuffer := b\<rparr>) =
      GetSectionCreationData adjacency sc mat sec"
    by (simp add: GetSectionCreationData_def Let_def NewProxy_adjacency_flag
        IsDualBufferSection_def)
  show ?thesis
    using p e by (simp add: GetSectionCreationData_section GetSectionCreationData_indices)
qed

text \<open>
  C2, as stated, fails: with a non-empty tessellation index buffer and the adjacency flag
  set by the caller, \<^verbatim>\<open>GetSectionCreationData\<close> hands out the plain index buffer when the
  proxy it creates reports no use of adjacency indices.
\<close>

theorem C2_creation_counterexample:
  "TessellationIndexBuffer (GenerateTessellationIndices gen_dual gen_single dual_section) \<noteq> [] \<and>
   bShouldUseAdjacencyIndexBuffer
     ((GenerateTessellationIndices gen_dual gen_single dual_section)
        \<lparr>bShouldUseAdjacencyIndexBuffer := True\<rparr>) \<and>
   cd_IndexBuffer (fst (GetSectionCreationData reports_no_adjacency () None
     ((GenerateTessellationIndices gen_dual gen_single dual_section)
        \<lparr>bShouldUseAdjacencyIndexBuffer := True\<rparr>))) = square_indices \<and>
   cd_IndexBuffer (fst (GetSectionCreationData reports_no_adjacency () None
     ((GenerateTessellationIndices gen_dual gen_single dual_section)
        \<lparr>bShouldUseAdjacencyIndexBuffer := True\<rparr>))) \<noteq>
     TessellationIndexBuffer (GenerateTessellationIndices gen_dual gen_single dual_section)"
  by (simp add: GetSectionCreationData_indices GenerateTessellationIndices_eq
      reports_no_adjacency_def dual_section_def gen_dual_def square_indices_def
      IsDualBufferSection_def FRuntimeMeshSection_new_def)

text \<open>
  C2, amended. \<^verbatim>\<open>GenerateTessellationIndices\<close> stores what the generator builds in the
  tessellation index buffer and changes nothing else. The next
  \<^verbatim>\<open>GetSectionCreationData\<close> hands out the tessellation index buffer when that buffer is
  not empty and the proxy it creates reports the use of adjacency indices, whatever the
  flag held before; it hands out the plain index buffer when the tessellation buffer is
  empty, and when the proxy reports no use. \<^verbatim>\<open>GetSectionUpdateData\<close> with indices
  included hands out the tessellation index buffer when the stored flag is set and that
  buffer is not empty, and the plain index buffer when the buffer is empty.
\<close>

theorem C2_index_buffer_selection:
  "GenerateTessellationIndices genDual genSingle sec =
     sec\<lparr>TessellationIndexBuffer :=
           (if IsDualBufferSection sec
            then genDual (PositionVertexBuffer sec) (VertexBuffer sec) (IndexBuffer sec)
            else genSingle (VertexBuffer sec) (IndexBuffer sec))\<rparr> \<and>
   (TessellationIndexBuffer sec \<noteq> [] \<and> adjacency (NewProxy sc mat sec) \<longrightarrow>
      cd_IndexBuffer (fst (GetSectionCreationData adjacency sc mat
          (sec\<lparr>bShouldUseAdjacencyIndexBuffer := b\<rparr>))) = TessellationIndexBuffer sec \<and>
      cd_bIsAdjacencyIndexBuffer (fst (GetSectionCreationData adjacency sc mat
          (sec\<lparr>bShouldUseAdjacencyIndexBuffer := b\<rparr>)))) \<and>
   (TessellationIndexBuffer sec = [] \<or> \<not> adjacency (NewProxy sc mat sec) \<longrightarrow>
      cd_IndexBuffer (fst (GetSectionCreationData adjacency sc mat
          (sec\<lparr>bShouldUseAdjacencyIndexBuffer := b\<rparr>))) = IndexBuffer sec \<and>
      \<not> cd_bIsAdjacencyIndexBuffer (fst (GetSectionCreationData adjacency sc mat
          (sec\<lparr>bShouldUseAdjacencyIndexBuffer := b\<rparr>)))) \<and>
   (TessellationIndexBuffer sec \<noteq> [] \<and> bShouldUseAdjacencyIndexBuffer sec \<longrightarrow>
      ud_IndexBuffer (GetSectionUpdateData incP incV True sec) = TessellationIndexBuffer sec \<and>
      ud_bIsAdjacencyIndexBuffer (GetSectionUpdateData incP incV True sec)) \<and>
   (TessellationIndexBuffer sec = [] \<longrightarrow>
      ud_IndexBuffer (GetSectionUpdateData incP incV True sec) = IndexBuffer sec \<and>
      \<not> ud_bIsAdjacencyIndexBuffer (GetSectionUpdateData incP incV True sec))"
  by (simp add: GetSectionCreationData_indices GetSectionUpdateData_indices
      GenerateTessellationIndices_eq NewProxy_adjacency_flag)

theorem C2_index_buffer_selection_witness:
  "TessellationIndexBuffer tessellated_section = square_indices @ square_indices \<and>
   TessellationIndexBuffer tessellated_section \<noteq> [] \<and>
   bShouldUseAdjacencyIndexBuffer tessellated_section \<and>
   reports_adjacency (NewProxy () None tessellated_section) \<and>
   cd_IndexBuffer (fst (GetSectionCreationData reports_adjacency () None
       (tessellated_section\<lparr>bShouldUseAdjacencyIndexBuffer := False\<rparr>))) =
     square_indices @ square_indices \<and>
   \<not> reports_no_adjacency (NewProxy () None tessellated_section) \<and>
   cd_IndexBuffer (fst (GetSectionCreationData reports_no_adjacency () None
       (tessellated_section\<lparr>bShouldUseAdjacencyIndexBuffer := True\<rparr>))) = square_indices \<and>
   ud_IndexBuffer (GetSectionUpdateData False False True tessellated_section) =
     square_indices @ square_indices \<and>
   TessellationIndexBuffer (dual_section\<lparr>bShouldUseAdjacencyIndexBuffer := True\<rparr>) = [] \<and>
   ud_IndexBuffer (GetSectionUpdateData False False True
       (dual_section\<lparr>bShouldUseAdjacencyIndexBuffer := True\<rparr>)) = square_indices"
proof -
  have t: "TessellationIndexBuffer tessellated_section = square_indices @ square_indices"
    "IndexBuffer tessellated_section = square_indices"
    "bShouldUseAdjacencyIndexBuffer tessellated_section"
    by (simp_all add: tessellated_section_def GenerateTessellationIndices_eq dual_section_def
        gen_dual_def IsDualBufferSection_def FRuntimeMeshSection_new_def)
  have n: "square_indices @ square_indices \<noteq> []"
    by (simp add: square_indices_def)
  have d: "TessellationIndexBuffer (dual_section\<lparr>bShouldUseAdjacencyIndexBuffer := True\<rparr>) = []"
    "IndexBuffer (dual_section\<lparr>bShouldUseAdjacencyIndexBuffer := True\<rparr>) = square_indices"
    by (simp_all add: dual_section_def FRuntimeMeshSection_new_def)
  have a: "reports_adjacency (NewProxy () None tessellated_section)"
    "\<not> reports_no_adjacency (NewProxy () None tessellated_section)"
    by (simp_all add: reports_adjacency_def reports_no_adjacency_def)
  show ?thesis
    using C2_index_buffer_selection [of gen_dual gen_single tessellated_section
        reports_adjacency "()" None False False False]
      C2_index_buffer_selection [of gen_dual gen_single tessellated_section
        reports_no_adjacency "()" None True False False]
      C2_index_buffer_selection [of gen_dual gen_single
        "dual_section\<lparr>bShouldUseAdjacencyIndexBuffer := True\<rparr>"
        reports_adjacency "()" None True False False]
    by (simp only: t n d a) simp
qed

text \<open>
  C4, as stated, fails in its "only if": a section whose position buffer is empty gets it
  back from a stream written below the dual-vertex-buffer version, since the new section's
  position buffer is empty as well.
\<close>

theorem C4_empty_positions_counterexample:
  "PositionVertexBuffer (snd (save_then_load 1 0 single_section new_single_section)) =
     PositionVertexBuffer single_section \<and>
   \<not> (1::int) \<le> 0"
  by (simp add: save_then_load_eq single_section_def new_single_section_def
      FRuntimeMeshSection_new_def)

text \<open>
  C4, amended. Writing a section and reading the stream into a new section of the same
  layout gives back the index buffer, the bounding box, the collision flag, the visibility
  flag and the update frequency, and reads the stream to its end without an error. The
  position buffer is in the stream, and comes back, when the format version is at least
  the dual-vertex-buffer version; below it the position buffer is not in the stream and
  the new section's stays empty. So the position buffer comes back exactly when the
  version is at least that version or the position buffer is empty.
\<close>

theorem C4_serialize_roundtrip:
  fixes s :: "('a::zero, 'v) FRuntimeMeshSection"
  shows "fst (save_then_load dvb ver s (FRuntimeMeshSection_new adj0 freq0 dual)) =
     \<lparr>ArIsLoading = True, ArIsError = False, CustomVer = ver, ArData = []\<rparr> \<and>
   IndexBuffer (snd (save_then_load dvb ver s (FRuntimeMeshSection_new adj0 freq0 dual))) =
     IndexBuffer s \<and>
   LocalBoundingBox (snd (save_then_load dvb ver s (FRuntimeMeshSection_new adj0 freq0 dual))) =
     LocalBoundingBox s \<and>
   CollisionEnabled (snd (save_then_load dvb ver s (FRuntimeMeshSection_new adj0 freq0 dual))) =
     CollisionEnabled s \<and>
   bIsVisible (snd (save_then_load dvb ver s (FRuntimeMeshSection_new adj0 freq0 dual))) =
     bIsVisible s \<and>
   UpdateFrequency (snd (save_then_load dvb ver s (FRuntimeMeshSection_new adj0 freq0 dual))) =
     UpdateFrequency s \<and>
   PositionVertexBuffer (snd (save_then_load dvb ver s (FRuntimeMeshSection_new adj0 freq0 dual))) =
     (if dvb \<le> ver then PositionVertexBuffer s else []) \<and>
   (PositionVertexBuffer (snd (save_then_load dvb ver s (FRuntimeMeshSection_new adj0 freq0 dual))) =
      PositionVertexBuffer s) =
     (dvb \<le> ver \<or> PositionVertexBuffer s = [])"
proof -
  have f: "PositionVertexBuffer (FRuntimeMeshSection_new adj0 freq0 dual :: ('a, 'v) FRuntimeMeshSection) = []"
    by (simp add: FRuntimeMeshSection_new_def)
  show ?thesis
    by (auto simp: save_then_load_eq f)
qed

end
